theory Spec2Isabelle
  imports Main "HOL-Library.Char_ord" "HOL-Library.List_Lexorder"
begin

section \<open>Exceptions and log records\<close>

text \<open>
  The Python exceptions that the modelled code can meet. A call that raises returns
  \<open>Inl e\<close>; a call that returns normally returns \<open>Inr v\<close>.
\<close>

datatype exn =
    IntegrityError
  | AttributeError string
  | JSONDecodeError
  | ValueError
  | TelegramBadRequest
  | FileNotFoundError string
  | OtherError string

datatype log_level = DEBUG | INFO | WARNING | ERROR

type_synonym log_record = "log_level \<times> string"

section \<open>The promo-code model (app/db/models/promocode.py)\<close>

text \<open>
  A row of the table \<open>promocodes\<close>. The column \<open>code\<close> is declared
  \<open>unique=True, nullable=False\<close>, so the committed table is a map from the code to
  the other columns, and an ORM object is the pair of its code and those columns.
\<close>

record promocode_row =
  row_id :: nat
  duration :: int
  is_activated :: bool
  activated_by :: "int option"
  created_at :: nat

type_synonym promocode = "string \<times> promocode_row"

text \<open>
  The SQLAlchemy session as a unit of work: the committed table, the objects added to the
  session and not yet inserted, and the objects marked for deletion. The source calls
  \<open>session.execute(select ...)\<close>, \<open>session.delete\<close>, \<open>session.commit\<close> and
  \<open>session.rollback\<close>.
\<close>

record session =
  rows :: "string \<rightharpoonup> promocode_row"
  pending_new :: "promocode list"
  pending_deleted :: "promocode list"

text \<open>\<open>session.execute(select(Promocode).where(Promocode.code == code))\<close> followed by
  \<open>scalar_one_or_none()\<close>: at most one row has the code.\<close>

definition select_by_code :: "session \<Rightarrow> string \<Rightarrow> promocode option" where
  "select_by_code s c = map_option (Pair c) (rows s c)"

text \<open>\<open>session.delete(obj)\<close> marks the object; the row goes at the next flush.\<close>

definition session_delete :: "session \<Rightarrow> promocode \<Rightarrow> session" where
  "session_delete s p = s\<lparr>pending_deleted := pending_deleted s @ [p]\<rparr>"

text \<open>The table once the marked rows are deleted.\<close>

definition after_deletes :: "session \<Rightarrow> (string \<rightharpoonup> promocode_row)" where
  "after_deletes s = (\<lambda>c. if c \<in> fst ` set (pending_deleted s) then None else rows s c)"

text \<open>A pending insert violates the unique constraint when its code is already in the
  table, or when two pending inserts carry one code.\<close>

definition violates_unique :: "session \<Rightarrow> bool" where
  "violates_unique s =
     (\<not> distinct (map fst (pending_new s))
      \<or> list_ex (\<lambda>p. after_deletes s (fst p) \<noteq> None) (pending_new s))"

text \<open>\<open>session.commit()\<close>: flushes the deletions and the inserts in one transaction; a
  violated unique constraint raises \<open>IntegrityError\<close> and writes nothing.\<close>

definition commit :: "session \<Rightarrow> exn + session" where
  "commit s =
     (if violates_unique s then Inl IntegrityError
      else Inr \<lparr>rows = after_deletes s ++ map_of (rev (pending_new s)),
                pending_new = [], pending_deleted = []\<rparr>)"

text \<open>\<open>session.rollback()\<close>: the pending changes are dropped.\<close>

definition rollback :: "session \<Rightarrow> session" where
  "rollback s = s\<lparr>pending_new := [], pending_deleted := []\<rparr>"

text \<open>The text of an exception inside a log message.\<close>

fun str_exn :: "exn \<Rightarrow> string" where
  "str_exn IntegrityError = ''IntegrityError''"
| "str_exn (AttributeError a) = ''AttributeError: '' @ a"
| "str_exn JSONDecodeError = ''JSONDecodeError''"
| "str_exn ValueError = ''ValueError''"
| "str_exn TelegramBadRequest = ''TelegramBadRequest''"
| "str_exn (FileNotFoundError f) = ''FileNotFoundError: '' @ f"
| "str_exn (OtherError m) = m"

text \<open>
  \<open>Promocode.get\<close>: the row with the code, or \<open>None\<close>.
\<close>

definition promocode_get :: "session \<Rightarrow> string \<Rightarrow> promocode option" where
  "promocode_get s c = select_by_code s c"

text \<open>
  \<open>Promocode.create(session, code, **kwargs)\<close>. The source selects the row with the
  code, commits the session, and returns what the select found; the keyword arguments are
  not read and no object is added to the session. Only \<open>IntegrityError\<close> is caught.
  The result is the returned value (or the exception that escapes), the session afterwards
  and the log records written.
\<close>

definition promocode_create ::
  "session \<Rightarrow> string \<Rightarrow> (string \<times> int) list
     \<Rightarrow> (exn + promocode option) \<times> session \<times> log_record list" where
  "promocode_create s c kwargs =
     (let promocode = select_by_code s c in
      case commit s of
        Inl IntegrityError \<Rightarrow>
          (Inr None, rollback s,
           [(ERROR, ''Error occurred while creating promocode '' @ c @ '': ''
                      @ str_exn IntegrityError)])
      | Inl e \<Rightarrow> (Inl e, s, [])
      | Inr s' \<Rightarrow> (Inr promocode, s', []))"

text \<open>\<open>Promocode.exists\<close>.\<close>

definition promocode_exists :: "session \<Rightarrow> string \<Rightarrow> bool" where
  "promocode_exists s c = (select_by_code s c \<noteq> None)"

text \<open>
  \<open>Promocode.delete(session, code)\<close>: selects the row; when there is one, marks it for
  deletion, commits and returns \<open>True\<close>; otherwise returns \<open>False\<close>. An exception of
  the commit is not caught here.
\<close>

definition promocode_delete :: "session \<Rightarrow> string \<Rightarrow> (exn + bool) \<times> session" where
  "promocode_delete s c =
     (case select_by_code s c of
        Some promocode \<Rightarrow>
          (let s1 = session_delete s promocode in
           case commit s1 of
             Inl e \<Rightarrow> (Inl e, s1)
           | Inr s2 \<Rightarrow> (Inr True, s2))
      | None \<Rightarrow> (Inr False, s))"

section \<open>Transactions (app/db/models; the model class is not among the sources)\<close>

text \<open>
  The status column. \<open>Yookassa\<close> passes members of \<open>TransactionStatus\<close>; the
  Telegram Stars handler passes the string literal \<open>"success"\<close>, kept as
  \<open>RawStatus\<close>.
\<close>

datatype transaction_status = PENDING | COMPLETED | CANCELED | RawStatus string

record transaction =
  tg_id :: int
  subscription :: string
  payment_id :: string
  status :: transaction_status

type_synonym transactions = "string \<rightharpoonup> transaction"

text \<open>Modelled from the spec: \<open>Transaction.create\<close> is missing from the sources. The
  spec describes a payment record keyed by a unique gateway-issued payment identifier,
  created on request; a second row with an identifier already stored violates the
  uniqueness and is not stored.\<close>

definition transaction_create ::
  "transactions \<Rightarrow> int \<Rightarrow> string \<Rightarrow> string \<Rightarrow> transaction_status \<Rightarrow> transactions" where
  "transaction_create t uid sub pid st =
     (case t pid of
        None \<Rightarrow> t(pid \<mapsto> \<lparr>tg_id = uid, subscription = sub, payment_id = pid, status = st\<rparr>)
      | Some _ \<Rightarrow> t)"

text \<open>Modelled from the spec: \<open>Transaction.get_by_id\<close> is missing from the sources. The
  spec describes a read by the unique payment identifier; as \<open>Promocode.get\<close> does, it
  returns \<open>None\<close> when no row has it.\<close>

definition transaction_get_by_id :: "transactions \<Rightarrow> string \<Rightarrow> transaction option" where
  "transaction_get_by_id t pid = t pid"

text \<open>Modelled from the spec: \<open>Transaction.update\<close> is missing from the sources. The
  spec describes a status flag stored directly by ORM update calls; as
  \<open>Promocode.update\<close> does, it updates the rows matching the identifier and commits.\<close>

definition transaction_update ::
  "transactions \<Rightarrow> string \<Rightarrow> transaction_status \<Rightarrow> transactions" where
  "transaction_update t pid st =
     (case t pid of
        None \<Rightarrow> t
      | Some r \<Rightarrow> t(pid \<mapsto> r\<lparr>status := st\<rparr>))"

section \<open>Subscription data, users and the outside world\<close>

text \<open>Modelled from the spec: \<open>SubscriptionData\<close> is missing from the sources. The spec
  describes a subscription of N devices for D days carried in packed callback data; the
  fields are the attributes the sources read and write.\<close>

record subscription_data =
  sd_state :: string
  user_id :: int
  devices :: int
  sd_duration :: int
  price :: int
  is_extend :: bool
  message_id :: int

datatype attr_value = IntV int | StrV string | BoolV bool

text \<open>An attribute read \<open>data.name\<close>: a name that is not a field raises
  \<open>AttributeError\<close>.\<close>

definition getattr_data :: "subscription_data \<Rightarrow> string \<Rightarrow> exn + attr_value" where
  "getattr_data d a =
     (if a = ''state'' then Inr (StrV (sd_state d))
      else if a = ''user_id'' then Inr (IntV (user_id d))
      else if a = ''devices'' then Inr (IntV (devices d))
      else if a = ''duration'' then Inr (IntV (sd_duration d))
      else if a = ''price'' then Inr (IntV (price d))
      else if a = ''is_extend'' then Inr (BoolV (is_extend d))
      else if a = ''message_id'' then Inr (IntV (message_id d))
      else Inl (AttributeError a))"

record user =
  user_tg_id :: int
  language_code :: string
  full_name :: string

text \<open>Who a VPN service call is for: the gateway passes the user object it read (or
  \<open>None\<close>), the Telegram Stars handler passes the user id.\<close>

datatype subscriber = UserObj "user option" | UserId int

text \<open>The message texts, as the translated template applied to its arguments, and the
  keyboards.\<close>

datatype message_text = WelcomeText string | ExtendedText int | KeyText string

datatype keyboard = MainMenuKeyboard bool | BackToMainMenuKeyboard | PaymentSuccessKeyboard

text \<open>The calls into the bot API, the FSM storage and the services. Each is an effect on
  the outside world; the environment decides whether it raises.\<close>

datatype call =
    DeleteMessage int int
  | StateClear
  | StateUpdateMessageId int
  | Answer message_text keyboard
  | RefundStarPayment int string
  | UseLocale string
  | RedirectToMainMenu "user option"
  | ExtendSubscription subscriber int int
  | CreateSubscription subscriber int int
  | GetKey subscriber
  | NotifyExtendSuccess int
  | NotifyPurchaseSuccess int string

text \<open>The state the handlers work on: the transaction table, the data of the FSM
  context, the calls made so far and the log records written so far.\<close>

record world =
  txs :: transactions
  fsm_data :: "string \<rightharpoonup> int"
  calls :: "call list"
  logs :: "log_record list"

text \<open>What lies outside the sources: the YooKassa SDK, the JSON parser, the callback
  data codec, the user table, the filters and the failures of the outside calls.\<close>

datatype json =
    JNull | JBool bool | JNum int | JStr string | JArr "json list" | JObj "(string \<times> json) list"

record notification =
  event :: string
  object_id :: string

record payment_response =
  resp_id :: string
  confirmation_url :: string

record payment_request =
  amount_value :: string
  amount_currency :: string
  return_url :: string
  description :: string
  receipt_email :: string

record env =
  is_ip_trusted :: "string option \<Rightarrow> exn + bool"
  json_loads :: "string \<Rightarrow> exn + json"
  factory_create :: "json \<Rightarrow> exn + notification"
  unpack :: "string \<Rightarrow> exn + subscription_data"
  pack :: "subscription_data \<Rightarrow> string"
  user_get :: "int \<Rightarrow> user option"
  is_admin :: "int \<Rightarrow> bool"
  is_dev :: "int \<Rightarrow> bool"
  fails :: "call \<Rightarrow> exn option"
  sent_message_id :: "message_text \<Rightarrow> int"
  vpn_key :: "subscriber \<Rightarrow> string"
  bot_username :: "exn + string"
  payment_create :: "payment_request \<Rightarrow> exn + payment_response"
  describe_invoice :: "int \<Rightarrow> int \<Rightarrow> string"
  str_int :: "int \<Rightarrow> string"
  shop_email :: string
  currency_value :: string

text \<open>Computations on the world that may raise: the value or the exception, and the
  world as it is then.\<close>

type_synonym 'a action = "world \<Rightarrow> (exn + 'a) \<times> world"

definition bind :: "'a action \<Rightarrow> ('a \<Rightarrow> 'b action) \<Rightarrow> 'b action" where
  "bind m f w = (case m w of (Inl e, w') \<Rightarrow> (Inl e, w') | (Inr a, w') \<Rightarrow> f a w')"

definition return :: "'a \<Rightarrow> 'a action" where
  "return a w = (Inr a, w)"

definition raise :: "exn \<Rightarrow> 'a action" where
  "raise e w = (Inl e, w)"

text \<open>\<open>logger.info\<close>, \<open>logger.debug\<close>, \<open>logger.warning\<close>, \<open>logger.error\<close>.\<close>

definition log :: "log_level \<Rightarrow> string \<Rightarrow> unit action" where
  "log l m w = (Inr (), w\<lparr>logs := logs w @ [(l, m)]\<rparr>)"

text \<open>An awaited outside call: it raises what the environment says, or it is done.\<close>

definition perform :: "env \<Rightarrow> call \<Rightarrow> unit action" where
  "perform E c w =
     (case fails E c of
        Some e \<Rightarrow> (Inl e, w)
      | None \<Rightarrow> (Inr (), w\<lparr>calls := calls w @ [c]\<rparr>))"

section \<open>The YooKassa gateway (app/bot/payment_gateways/yookassa.py)\<close>

text \<open>The members of \<open>WebhookNotificationEventType\<close> the handler matches on: the
  event of a notification is a string, compared by equality.\<close>

definition PAYMENT_SUCCEEDED :: string where
  "PAYMENT_SUCCEEDED = ''payment.succeeded''"

definition PAYMENT_CANCELED :: string where
  "PAYMENT_CANCELED = ''payment.canceled''"

text \<open>An aiohttp request: the headers, the remote address and the body.\<close>

record request =
  headers :: "string \<rightharpoonup> string"
  remote :: "string option"
  body :: string

datatype response = Response nat

text \<open>The \<open>PaymentRequest\<close> that \<open>create_payment\<close> builds: the price and the
  currency, the redirect to the bot, the description and the receipt.\<close>

definition payment_request_for :: "env \<Rightarrow> string \<Rightarrow> subscription_data \<Rightarrow> payment_request" where
  "payment_request_for E username data =
     (let redirect_url = ''https://t.me/'' @ username;
          descr = describe_invoice E (devices data) (sd_duration data);
          currency = currency_value E;
          price_s = str_int E (price data)
      in \<lparr>amount_value = price_s, amount_currency = currency,
           return_url = redirect_url, description = descr,
           receipt_email = shop_email E\<rparr>)"

text \<open>
  \<open>Yookassa.create_payment\<close>: asks the bot for its name, builds the payment request,
  creates the payment at the gateway, stores a transaction under the identifier of the
  gateway's response with status \<open>PENDING\<close>, and returns the confirmation URL.
\<close>

definition create_payment :: "env \<Rightarrow> subscription_data \<Rightarrow> string action" where
  "create_payment E data =
     bind (\<lambda>w. (bot_username E, w)) (\<lambda>username.
     bind (\<lambda>w. (payment_create E (payment_request_for E username data), w)) (\<lambda>resp.
     bind (\<lambda>w. (Inr (), w\<lparr>txs := transaction_create (txs w) (user_id data) (pack E data)
                                      (resp_id resp) PENDING\<rparr>)) (\<lambda>_.
     let pay_url = confirmation_url resp in
     bind (log INFO (''Payment link created for user '' @ str_int E (user_id data)
                       @ '': '' @ pay_url)) (\<lambda>_.
     return pay_url))))"

text \<open>The part of \<open>handle_payment_succeeded\<close> after the database session is closed:
  the user is sent back to the main menu, the subscription is extended or created, and
  the user is notified.\<close>

definition provision :: "env \<Rightarrow> user option \<Rightarrow> subscription_data \<Rightarrow> unit action" where
  "provision E usr data =
     (let locale = (case usr of Some u \<Rightarrow> language_code u | None \<Rightarrow> ''en'') in
      bind (perform E (UseLocale locale)) (\<lambda>_.
      bind (perform E (RedirectToMainMenu usr)) (\<lambda>_.
      if is_extend data then
        bind (perform E (ExtendSubscription (UserObj usr) (devices data) (sd_duration data))) (\<lambda>_.
        bind (log INFO (''Subscription extended for user '' @ str_int E (user_id data))) (\<lambda>_.
        perform E (NotifyExtendSuccess (user_id data))))
      else
        bind (perform E (CreateSubscription (UserObj usr) (devices data) (sd_duration data))) (\<lambda>_.
        bind (log INFO (''Subscription created for user '' @ str_int E (user_id data))) (\<lambda>_.
        bind (perform E (GetKey (UserObj usr))) (\<lambda>_.
        perform E (NotifyPurchaseSuccess (user_id data) (vpn_key E (UserObj usr)))))))))"

text \<open>
  \<open>Yookassa.handle_payment_succeeded\<close>: reads the transaction of the payment (reading
  \<open>.subscription\<close> of \<open>None\<close> raises), unpacks its subscription data, reads the
  user, sets the status to \<open>COMPLETED\<close>, then provisions.
\<close>

definition handle_payment_succeeded :: "env \<Rightarrow> string \<Rightarrow> unit action" where
  "handle_payment_succeeded E pid =
     bind (log INFO (''Payment succeeded '' @ pid)) (\<lambda>_.
     bind (\<lambda>w. (case transaction_get_by_id (txs w) pid of
                   None \<Rightarrow> Inl (AttributeError ''subscription'')
                 | Some tr \<Rightarrow> Inr tr, w)) (\<lambda>tr.
     bind (\<lambda>w. (unpack E (subscription tr), w)) (\<lambda>data.
     bind (log DEBUG (''Subscription data unpacked: '' @ subscription tr)) (\<lambda>_.
     let usr = user_get E (user_id data) in
     bind (\<lambda>w. (Inr (), w\<lparr>txs := transaction_update (txs w) pid COMPLETED\<rparr>)) (\<lambda>_.
     provision E usr data)))))"

text \<open>
  \<open>Yookassa.handle_payment_canceled\<close>: reads the transaction, unpacks its subscription
  data, and sets the status to \<open>CANCELED\<close>.
\<close>

definition handle_payment_canceled :: "env \<Rightarrow> string \<Rightarrow> unit action" where
  "handle_payment_canceled E pid =
     bind (log INFO (''Payment canceled '' @ pid)) (\<lambda>_.
     bind (\<lambda>w. (case transaction_get_by_id (txs w) pid of
                   None \<Rightarrow> Inl (AttributeError ''subscription'')
                 | Some tr \<Rightarrow> Inr tr, w)) (\<lambda>tr.
     bind (\<lambda>w. (unpack E (subscription tr), w)) (\<lambda>data.
     (\<lambda>w. (Inr (), w\<lparr>txs := transaction_update (txs w) pid CANCELED\<rparr>)))))"

text \<open>The \<open>try\<close> block of \<open>webhook_handler\<close>: builds the notification and dispatches
  on its event.\<close>

definition webhook_try :: "env \<Rightarrow> json \<Rightarrow> response action" where
  "webhook_try E event_json =
     bind (\<lambda>w. (factory_create E event_json, w)) (\<lambda>notification_object.
     let pid = object_id notification_object in
     if event notification_object = PAYMENT_SUCCEEDED then
       bind (handle_payment_succeeded E pid) (\<lambda>_. return (Response 200))
     else if event notification_object = PAYMENT_CANCELED then
       bind (handle_payment_canceled E pid) (\<lambda>_. return (Response 200))
     else return (Response 400))"

text \<open>\<open>request.headers.get("X-Forwarded-For", request.remote)\<close>.\<close>

definition source_ip :: "request \<Rightarrow> string option" where
  "source_ip req =
     (case headers req ''X-Forwarded-For'' of Some v \<Rightarrow> Some v | None \<Rightarrow> remote req)"

text \<open>
  \<open>Yookassa.webhook_handler\<close>: the address is the header \<open>X-Forwarded-For\<close>, or the
  remote address when the header is absent; an untrusted address gets 403. The body is
  parsed before the \<open>try\<close> block; an exception inside the block is logged and gets 400.
\<close>

definition webhook_handler :: "env \<Rightarrow> request \<Rightarrow> response action" where
  "webhook_handler E req =
     (let ip = source_ip req in
      bind (\<lambda>w. (is_ip_trusted E ip, w)) (\<lambda>trusted.
      if \<not> trusted then return (Response 403)
      else
        bind (\<lambda>w. (json_loads E (body req), w)) (\<lambda>event_json.
        (\<lambda>w. case webhook_try E event_json w of
                (Inl exception, w') \<Rightarrow>
                  bind (log ERROR (''Error processing YooKassa webhook: '' @ str_exn exception))
                       (\<lambda>_. return (Response 400)) w'
              | (Inr r, w') \<Rightarrow> (Inr r, w')))))"

section \<open>The bot handlers (app/bot/routes)\<close>

record successful_payment_info =
  invoice_payload :: string
  telegram_payment_charge_id :: string

text \<open>A Telegram message: its sender, its chat, its id and, on the route filtered by
  \<open>F.successful_payment\<close>, the payment it reports (\<open>None\<close> on other messages).\<close>

record message =
  from_user :: user
  chat_id :: int
  msg_id :: int
  payment :: "successful_payment_info option"

text \<open>\<open>state.clear()\<close> and \<open>state.update_data(message_id=...)\<close> on the FSM context.\<close>

definition state_clear :: "env \<Rightarrow> unit action" where
  "state_clear E =
     bind (perform E StateClear) (\<lambda>_ w. (Inr (), w\<lparr>fsm_data := Map.empty\<rparr>))"

definition state_update_message_id :: "env \<Rightarrow> int \<Rightarrow> unit action" where
  "state_update_message_id E mid =
     bind (perform E (StateUpdateMessageId mid))
          (\<lambda>_ w. (Inr (), w\<lparr>fsm_data := (fsm_data w)(''message_id'' \<mapsto> mid)\<rparr>))"

text \<open>The statements of \<open>command_main_menu\<close> after the deletion of the previous menu:
  the admin filter, the answer, the update of the state and the deletion of the
  command message.\<close>

definition main_menu_rest :: "env \<Rightarrow> message \<Rightarrow> unit action" where
  "main_menu_rest E m =
     (let adm = is_admin E (user_tg_id (from_user m));
          txt = WelcomeText (full_name (from_user m)) in
      bind (perform E (Answer txt (MainMenuKeyboard adm))) (\<lambda>_.
      bind (state_update_message_id E (sent_message_id E txt)) (\<lambda>_.
      perform E (DeleteMessage (chat_id m) (msg_id m)))))"

text \<open>The \<open>try\<close>/\<open>except\<close>/\<open>finally\<close> of \<open>command_main_menu\<close>: the deletion, the
  warning when it raises, and the clearing of the state either way.\<close>

definition delete_previous_menu :: "env \<Rightarrow> message \<Rightarrow> int \<Rightarrow> unit action" where
  "delete_previous_menu E m previous_message_id w =
     (case perform E (DeleteMessage (chat_id m) previous_message_id) w of
        (Inl e, w') \<Rightarrow>
          bind (log WARNING (''Couldn't delete message with ID ''
                  @ str_int E previous_message_id @ '': '' @ str_exn e))
               (\<lambda>_. state_clear E) w'
      | (Inr _, w') \<Rightarrow> state_clear E w')"

text \<open>
  \<open>command_main_menu\<close>, the handler of \<open>/start\<close>. A stored message id that is
  \<open>None\<close> or \<open>0\<close> is falsy and skips the deletion.
\<close>

definition command_main_menu :: "env \<Rightarrow> message \<Rightarrow> unit action" where
  "command_main_menu E m =
     bind (log INFO (''User '' @ str_int E (user_tg_id (from_user m))
                      @ '' opened main menu page.'')) (\<lambda>_.
     bind (\<lambda>w. (Inr (fsm_data w ''message_id''), w)) (\<lambda>previous_message_id.
     bind (case previous_message_id of
             None \<Rightarrow> return ()
           | Some i \<Rightarrow> if i = 0 then return () else delete_previous_menu E m i) (\<lambda>_.
     main_menu_rest E m)))"

text \<open>The statements of \<open>successful_payment\<close> after the deletion of the invoice
  message: the subscription, the transaction and the answer.\<close>

definition payment_rest ::
  "env \<Rightarrow> message \<Rightarrow> successful_payment_info \<Rightarrow> subscription_data \<Rightarrow> unit action" where
  "payment_rest E m sp data =
     (let uid = user_tg_id (from_user m); who = UserId (user_id data) in
      bind (if is_extend data then
              bind (perform E (ExtendSubscription who (devices data) (sd_duration data))) (\<lambda>_.
              log INFO (''Subscription extented for user '' @ str_int E (user_id data)))
            else
              bind (perform E (CreateSubscription who (devices data) (sd_duration data))) (\<lambda>_.
              log INFO (''Subscription created for user '' @ str_int E (user_id data)))) (\<lambda>_.
      bind (\<lambda>w. (Inr (), w\<lparr>txs := transaction_create (txs w) uid (invoice_payload sp)
                     (telegram_payment_charge_id sp) (RawStatus ''success'')\<rparr>)) (\<lambda>_.
      if is_extend data then
        perform E (Answer (ExtendedText (sd_duration data)) BackToMainMenuKeyboard)
      else
        bind (perform E (GetKey (UserId uid))) (\<lambda>_.
        perform E (Answer (KeyText (vpn_key E (UserId uid))) PaymentSuccessKeyboard)))))"

text \<open>The \<open>try\<close>/\<open>except\<close> of \<open>successful_payment\<close>: the deletion of the invoice
  message; the handler of the exception formats its warning from the attribute
  \<open>message_idd\<close> of the subscription data.\<close>

definition delete_invoice_message :: "env \<Rightarrow> message \<Rightarrow> subscription_data \<Rightarrow> unit action" where
  "delete_invoice_message E m data w =
     (case perform E (DeleteMessage (chat_id m) (message_id data)) w of
        (Inl e, w') \<Rightarrow>
          (case getattr_data data ''message_idd'' of
             Inl e2 \<Rightarrow> (Inl e2, w')
           | Inr v \<Rightarrow>
               log WARNING (''Couldn't delete message with ID ''
                  @ (case v of IntV i \<Rightarrow> str_int E i | StrV t \<Rightarrow> t | BoolV b \<Rightarrow> (if b then ''True'' else ''False''))
                  @ '': '' @ str_exn e) w')
      | (Inr u, w') \<Rightarrow> (Inr u, w'))"

text \<open>
  \<open>successful_payment\<close>, the handler of a message that reports a Telegram Stars
  payment.
\<close>

definition successful_payment :: "env \<Rightarrow> message \<Rightarrow> unit action" where
  "successful_payment E m =
     (let uid = user_tg_id (from_user m) in
      bind (log INFO (''Payment successful for user '' @ str_int E uid)) (\<lambda>_.
      bind (case payment m of
              None \<Rightarrow> raise (AttributeError ''invoice_payload'')
            | Some sp \<Rightarrow> return sp) (\<lambda>sp.
      bind (\<lambda>w. (unpack E (invoice_payload sp), w)) (\<lambda>data.
      bind (log DEBUG (''Subscription data unpacked: '' @ invoice_payload sp)) (\<lambda>_.
      bind (if is_dev E uid
            then perform E (RefundStarPayment uid (telegram_payment_charge_id sp))
            else return ()) (\<lambda>_.
      bind (delete_invoice_message E m data) (\<lambda>_.
      payment_rest E m sp data)))))))"

section \<open>The restart of the bot (app/bot/routes/admin_tools/restart_handler.py)\<close>

text \<open>What the handler does to the process: \<open>os.system\<close> runs a shell command,
  \<open>os.execv\<close> replaces the process image by a program with its arguments.\<close>

datatype process_action = System string | Execv string "string list"

text \<open>
  \<open>callback_restart_bot\<close>: the process environment, \<open>sys.executable\<close>, \<open>sys.argv\<close>
  and the printed id of the admin. An unset or empty \<open>HOSTNAME\<close> is falsy.
\<close>

definition callback_restart_bot ::
  "(string \<rightharpoonup> string) \<Rightarrow> string \<Rightarrow> string list \<Rightarrow> string
     \<Rightarrow> log_record list \<times> process_action list" where
  "callback_restart_bot environ executable argv admin =
     (let name = environ ''HOSTNAME'' in
      ([(INFO, ''Admin '' @ admin @ '' restarted bot.'')],
       (case name of
          Some n \<Rightarrow>
            if n \<noteq> [] then [System (''docker restart '' @ n)]
            else [Execv executable (executable # argv)]
        | None \<Rightarrow> [Execv executable (executable # argv)])))"

section \<open>The log files (app/logger.py)\<close>

text \<open>The content of a file: plain bytes, a zip archive of named members, or a gzip
  stream. The file system is a list of paths with their contents, each path once.\<close>

datatype file_content = Plain string | Zip "(string \<times> file_content) list" | Gz file_content

type_synonym fs = "(string \<times> file_content) list"

definition path_exists :: "fs \<Rightarrow> string \<Rightarrow> bool" where
  "path_exists f p = (map_of f p \<noteq> None)"

definition unlink :: "fs \<Rightarrow> string \<Rightarrow> fs" where
  "unlink f p = filter (\<lambda>e. fst e \<noteq> p) f"

text \<open>\<open>open(p, "w")\<close> and the like: the file holds the content, whatever it held.\<close>

definition write_file :: "fs \<Rightarrow> string \<Rightarrow> file_content \<Rightarrow> fs" where
  "write_file f p c = unlink f p @ [(p, c)]"

text \<open>\<open>os.remove\<close> raises when the path does not exist.\<close>

definition os_remove :: "fs \<Rightarrow> string \<Rightarrow> (exn + unit) \<times> fs" where
  "os_remove f p =
     (if path_exists f p then (Inr (), unlink f p) else (Inl (FileNotFoundError p), f))"

text \<open>\<open>os.rename\<close> of an existing source: the destination is replaced.\<close>

definition os_rename :: "fs \<Rightarrow> string \<Rightarrow> string \<Rightarrow> fs" where
  "os_rename f src dst =
     (case map_of f src of
        None \<Rightarrow> f
      | Some c \<Rightarrow> write_file (unlink f src) dst c)"

text \<open>\<open>os.path.basename\<close>: what follows the last slash.\<close>

definition basename :: "string \<Rightarrow> string" where
  "basename p = rev (takeWhile (\<lambda>c. c \<noteq> CHR ''/'') (rev p))"

text \<open>\<open>os.path.join\<close> of a directory and a file name.\<close>

definition path_join :: "string \<Rightarrow> string \<Rightarrow> string" where
  "path_join d n = (if d = [] \<or> last d = CHR ''/'' then d @ n else d @ ''/'' @ n)"

text \<open>The handler object: the fields of \<open>TimedRotatingFileHandler\<close> the rollover reads,
  the archive format, and the formatter with the level filter in front of it (\<open>None\<close>
  for a record that is not written).\<close>

record handler =
  baseFilename :: string
  rotate_when :: string
  interval :: nat
  backupCount :: nat
  delay :: bool
  archive_format :: string
  formatter :: "log_record \<Rightarrow> string option"

text \<open>\<open>CompressingFileHandler.__init__\<close>: a format other than \<open>zip\<close> and
  \<open>gz\<close> raises \<open>ValueError\<close>.\<close>

definition init_handler ::
  "string \<Rightarrow> string \<Rightarrow> nat \<Rightarrow> nat \<Rightarrow> bool \<Rightarrow> string \<Rightarrow> (log_record \<Rightarrow> string option)
     \<Rightarrow> exn + handler" where
  "init_handler filename rwhen ival backups dly fmt frm =
     (if fmt \<noteq> ''zip'' \<and> fmt \<noteq> ''gz'' then Inl ValueError
      else Inr \<lparr>baseFilename = filename, rotate_when = rwhen, interval = ival,
                backupCount = backups, delay = dly, archive_format = fmt,
                formatter = frm\<rparr>)"

text \<open>The suffix pattern of a handler rotating at midnight,
  \<open>^\d{4}-\d{2}-\d{2}(\.\w+)?$\<close>.\<close>

definition is_digit :: "char \<Rightarrow> bool" where
  "is_digit c = (c \<in> set ''0123456789'')"

definition is_word_char :: "char \<Rightarrow> bool" where
  "is_word_char c =
     (c \<in> set ''0123456789abcdefghijklmnopqrstuvwxyzABCDEFGHIJKLMNOPQRSTUVWXYZ_'')"

definition ext_match :: "string \<Rightarrow> bool" where
  "ext_match t =
     (10 \<le> length t
      \<and> list_all is_digit (take 4 t) \<and> take 1 (drop 4 t) = ''-''
      \<and> list_all is_digit (take 2 (drop 5 t)) \<and> take 1 (drop 7 t) = ''-''
      \<and> list_all is_digit (take 2 (drop 8 t))
      \<and> (case drop 10 t of
            [] \<Rightarrow> True
          | c # r \<Rightarrow> c = CHR ''.'' \<and> r \<noteq> [] \<and> list_all is_word_char r))"

text \<open>\<open>getFilesToDelete\<close> of the standard handler: the files named by the base file
  name, a dot and a matching suffix, sorted, but for the newest \<open>backupCount\<close>.\<close>

definition getFilesToDelete :: "handler \<Rightarrow> fs \<Rightarrow> string list" where
  "getFilesToDelete h f =
     (let prefix = baseFilename h @ ''.'';
          result = filter (\<lambda>p. take (length prefix) p = prefix
                                \<and> ext_match (drop (length prefix) p)) (map fst f)
      in if length result < backupCount h then []
         else take (length result - backupCount h) (sort result))"

text \<open>A record handled by the file handler: the formatted line goes to the end of the
  base file, which is opened (and so created) when needed.\<close>

definition emit :: "handler \<Rightarrow> log_record \<Rightarrow> fs \<Rightarrow> fs" where
  "emit h r f =
     (case formatter h r of
        None \<Rightarrow> f
      | Some line \<Rightarrow>
          (case map_of f (baseFilename h) of
             Some (Plain c) \<Rightarrow> write_file f (baseFilename h) (Plain (c @ line))
           | Some other \<Rightarrow> f
           | None \<Rightarrow> write_file f (baseFilename h) (Plain line)))"

text \<open>\<open>TimedRotatingFileHandler.doRollover\<close> of the standard library; the suffix is the
  date of the interval that ended. The base file moves to the base name with the suffix,
  the oldest backups are deleted, and the base file is opened again unless the handler
  delays.\<close>

definition super_doRollover :: "handler \<Rightarrow> string \<Rightarrow> fs \<Rightarrow> fs" where
  "super_doRollover h suffix f =
     (let dfn = baseFilename h @ ''.'' @ suffix;
          f1 = (if path_exists f dfn then unlink f dfn else f);
          f2 = (if path_exists f1 (baseFilename h) then os_rename f1 (baseFilename h) dfn else f1);
          f3 = (if 0 < backupCount h then foldl unlink f2 (getFilesToDelete h f2) else f2)
      in if \<not> delay h \<and> \<not> path_exists f3 (baseFilename h)
         then write_file f3 (baseFilename h) (Plain [])
         else f3)"

text \<open>\<open>rotation_filename\<close> without a namer returns the name it is given.\<close>

definition rotation_filename :: "handler \<Rightarrow> string \<Rightarrow> string" where
  "rotation_filename h default_name = default_name"

text \<open>\<open>_archive_to_zip\<close>: logs, opens the archive for writing, and adds the log file
  under its base name.\<close>

definition archive_to_zip :: "handler \<Rightarrow> string \<Rightarrow> fs \<Rightarrow> (exn + unit) \<times> fs" where
  "archive_to_zip h log_file f =
     (let zip_file = log_file @ ''.zip'';
          f1 = emit h (INFO, ''Archiving '' @ log_file @ '' to '' @ zip_file) f;
          f2 = write_file f1 zip_file (Zip [])
      in case map_of f2 log_file of
           None \<Rightarrow> (Inl (FileNotFoundError log_file), f2)
         | Some c \<Rightarrow> (Inr (), write_file f2 zip_file (Zip [(basename log_file, c)])))"

text \<open>\<open>_archive_to_gz\<close>: logs, opens the log file for reading, and copies it into the
  gzip file.\<close>

definition archive_to_gz :: "handler \<Rightarrow> string \<Rightarrow> fs \<Rightarrow> (exn + unit) \<times> fs" where
  "archive_to_gz h log_file f =
     (let gz_file = log_file @ ''.gz'';
          f1 = emit h (INFO, ''Archiving '' @ log_file @ '' to '' @ gz_file) f
      in case map_of f1 log_file of
           None \<Rightarrow> (Inl (FileNotFoundError log_file), f1)
         | Some c \<Rightarrow> (Inr (), write_file f1 gz_file (Gz c)))"

text \<open>
  \<open>CompressingFileHandler.doRollover\<close>: the rollover of the standard handler, then the
  archiving of \<open>rotation_filename(baseFilename)\<close>, then its removal.
\<close>

definition doRollover :: "handler \<Rightarrow> string \<Rightarrow> fs \<Rightarrow> (exn + unit) \<times> fs" where
  "doRollover h suffix f =
     (let f1 = super_doRollover h suffix f;
          log_file = rotation_filename h (baseFilename h);
          archived =
            (if archive_format h = ''zip'' then archive_to_zip h log_file f1
             else if archive_format h = ''gz'' then archive_to_gz h log_file f1
             else (Inr (), f1))
      in case archived of
           (Inl e, f2) \<Rightarrow> (Inl e, f2)
         | (Inr _, f2) \<Rightarrow> os_remove f2 log_file)"

text \<open>The logging configuration, and the file handler \<open>setup_logging\<close> installs: named
  by the date of the start of the program, rotating at midnight, seven backups.\<close>

record logging_config =
  cfg_DIR :: string
  cfg_ARCHIVE_FORMAT :: string
  cfg_formatter :: "log_record \<Rightarrow> string option"

definition setup_logging :: "logging_config \<Rightarrow> string \<Rightarrow> exn + handler" where
  "setup_logging config today =
     init_handler (path_join (cfg_DIR config) (today @ ''.log'')) ''midnight'' 1 7 False
       (cfg_ARCHIVE_FORMAT config) (cfg_formatter config)"

section \<open>Predicates of the properties\<close>

text \<open>The three members of \<open>TransactionStatus\<close>, and a table all of whose rows hold
  one of them.\<close>

definition enumerated :: "transaction_status \<Rightarrow> bool" where
  "enumerated st = (st = PENDING \<or> st = COMPLETED \<or> st = CANCELED)"

definition statuses_enumerated :: "transactions \<Rightarrow> bool" where
  "statuses_enumerated t = (\<forall>tr \<in> ran t. enumerated (status tr))"

text \<open>A computation that leaves the transaction table as it found it.\<close>

definition keeps_txs :: "'a action \<Rightarrow> bool" where
  "keeps_txs m = (\<forall>w. txs (snd (m w)) = txs w)"

section \<open>Concrete inputs\<close>

text \<open>A promo-code row, a session with that row committed and nothing pending, and the
  same session with a pending insert of the code it already stores.\<close>

definition example_row :: promocode_row where
  "example_row = \<lparr>row_id = 1, duration = 30, is_activated = False, activated_by = None,
      created_at = 0\<rparr>"

definition stored_session :: session where
  "stored_session = \<lparr>rows = [''SPRING25'' \<mapsto> example_row], pending_new = [],
      pending_deleted = []\<rparr>"

definition conflicting_session :: session where
  "conflicting_session = \<lparr>rows = [''SPRING25'' \<mapsto> example_row],
      pending_new = [(''SPRING25'', example_row)], pending_deleted = []\<rparr>"

text \<open>An environment in which no outside call fails: one trusted address, three bodies
  that parse, a notification factory for the parsed objects, one packed subscription.\<close>

fun example_factory :: "json \<Rightarrow> exn + notification" where
  "example_factory (JObj [(k1, JStr ev), (k2, JStr i)]) =
     (if k1 = ''event'' \<and> k2 = ''id'' then Inr \<lparr>event = ev, object_id = i\<rparr>
      else Inl ValueError)"
| "example_factory _ = Inl ValueError"

definition example_data :: subscription_data where
  "example_data = \<lparr>sd_state = ''pay_yookassa'', user_id = 1001, devices = 2, sd_duration = 30,
      price = 300, is_extend = False, message_id = 77\<rparr>"

definition example_env :: env where
  "example_env =
     \<lparr>is_ip_trusted = (\<lambda>ip. case ip of None \<Rightarrow> Inl ValueError
                                | Some a \<Rightarrow> Inr (a = ''185.71.76.10'')),
      json_loads = (\<lambda>b. if b = ''succeeded p-1'' then
                            Inr (JObj [(''event'', JStr ''payment.succeeded''), (''id'', JStr ''p-1'')])
                          else if b = ''canceled p-404'' then
                            Inr (JObj [(''event'', JStr ''payment.canceled''), (''id'', JStr ''p-404'')])
                          else if b = ''refund p-1'' then
                            Inr (JObj [(''event'', JStr ''refund.succeeded''), (''id'', JStr ''p-1'')])
                          else Inl JSONDecodeError),
      factory_create = example_factory,
      unpack = (\<lambda>t. if t = ''packed'' then Inr example_data else Inl ValueError),
      pack = (\<lambda>d. ''packed''),
      user_get = (\<lambda>i. None),
      is_admin = (\<lambda>i. False),
      is_dev = (\<lambda>i. False),
      fails = (\<lambda>c. None),
      sent_message_id = (\<lambda>t. 78),
      vpn_key = (\<lambda>s. ''vless://key''),
      bot_username = Inr ''shop_bot'',
      payment_create = (\<lambda>r. Inr \<lparr>resp_id = ''p-1'', confirmation_url = ''https://pay/p-1''\<rparr>),
      describe_invoice = (\<lambda>d n. ''subscription''),
      str_int = (\<lambda>i. ''n''),
      shop_email = ''shop@example.org'',
      currency_value = ''RUB''\<rparr>"

definition example_request :: "string \<Rightarrow> string \<Rightarrow> request" where
  "example_request ip b = \<lparr>headers = [''X-Forwarded-For'' \<mapsto> ip], remote = None, body = b\<rparr>"

definition empty_world :: world where
  "empty_world = \<lparr>txs = Map.empty, fsm_data = Map.empty, calls = [], logs = []\<rparr>"

definition example_transaction :: transaction where
  "example_transaction = \<lparr>tg_id = 1001, subscription = ''packed'', payment_id = ''p-1'',
      status = PENDING\<rparr>"

definition pending_world :: world where
  "pending_world = \<lparr>txs = [''p-1'' \<mapsto> example_transaction], fsm_data = Map.empty,
      calls = [], logs = []\<rparr>"

text \<open>A message that reports a payment, and an environment in which the deletion of the
  invoice message raises (the message is already gone).\<close>

definition example_user :: user where
  "example_user = \<lparr>user_tg_id = 1001, language_code = ''en'', full_name = ''Ann''\<rparr>"

definition payment_message :: message where
  "payment_message = \<lparr>from_user = example_user, chat_id = 5, msg_id = 80,
      payment = Some \<lparr>invoice_payload = ''packed'', telegram_payment_charge_id = ''ch-1''\<rparr>\<rparr>"

definition failing_delete_env :: env where
  "failing_delete_env =
     example_env\<lparr>fails := (\<lambda>c. if c = DeleteMessage 5 77 then Some TelegramBadRequest else None)\<rparr>"

text \<open>The handler that \<open>setup_logging\<close> installs on the first of May for the directory
  \<open>logs\<close> and the format \<open>zip\<close>, and a log directory holding the day's file.\<close>

definition example_config :: logging_config where
  "example_config = \<lparr>cfg_DIR = ''logs'', cfg_ARCHIVE_FORMAT = ''zip'',
      cfg_formatter = (\<lambda>r. Some (snd r))\<rparr>"

definition example_handler :: handler where
  "example_handler = \<lparr>baseFilename = ''logs/2024-05-01.log'', rotate_when = ''midnight'',
      interval = 1, backupCount = 7, delay = False, archive_format = ''zip'',
      formatter = (\<lambda>r. Some (snd r))\<rparr>"

definition example_fs :: fs where
  "example_fs = [(''logs/2024-05-01.log'', Plain ''started'')]"

lemmas example_defs =
  example_env_def example_request_def empty_world_def example_data_def source_ip_def

lemmas run_defs =
  bind_def return_def raise_def log_def perform_def Let_def

section \<open>The promo-code model: creation and deletion\<close>

lemma commit_no_pending:
  "pending_new s = [] \<Longrightarrow> pending_deleted s = [] \<Longrightarrow> commit s = Inr s"
  by (simp add: commit_def violates_unique_def after_deletes_def)

lemma commit_result_clean:
  "commit s = Inr s' \<Longrightarrow> pending_new s' = [] \<and> pending_deleted s' = []"
  by (auto simp: commit_def split: if_splits)

lemma commit_error:
  "commit s = Inl e \<Longrightarrow> e = IntegrityError"
  by (auto simp: commit_def split: if_splits)

lemma promocode_create_clean:
  assumes "promocode_create s c kw = (r, s1, l)"
  shows "pending_new s1 = [] \<and> pending_deleted s1 = []"
proof (cases "commit s")
  case (Inl e)
  then have "e = IntegrityError" by (rule commit_error)
  with Inl assms show ?thesis
    by (auto simp: promocode_create_def rollback_def)
next
  case (Inr s')
  with assms show ?thesis
    by (auto simp: promocode_create_def dest: commit_result_clean)
qed

text \<open>
  C4. Whenever the commit inside \<open>Promocode.create\<close> raises \<open>IntegrityError\<close>, the
  call does not raise: it returns \<open>None\<close>, the session is rolled back, and one record
  of level \<open>ERROR\<close> naming the code is logged.
\<close>

theorem promocode_create_integrity_error:
  "commit s = Inl IntegrityError \<Longrightarrow>
   promocode_create s c kwargs =
     (Inr None, rollback s,
      [(ERROR, ''Error occurred while creating promocode '' @ c @ '': IntegrityError'')])"
  by (simp add: promocode_create_def)

theorem promocode_create_integrity_error_witness:
  "commit conflicting_session = Inl IntegrityError
   \<and> promocode_create conflicting_session ''SPRING25'' [(''duration'', 30)] =
       (Inr None, stored_session,
        [(ERROR, ''Error occurred while creating promocode SPRING25: IntegrityError'')])"
proof -
  have h: "commit conflicting_session = Inl IntegrityError"
    by (simp add: commit_def violates_unique_def after_deletes_def conflicting_session_def)
  have r: "rollback conflicting_session = stored_session"
    by (simp add: rollback_def conflicting_session_def stored_session_def)
  from promocode_create_integrity_error [OF h, of "''SPRING25''" "[(''duration'', 30)]"] h r
  show ?thesis by simp
qed

text \<open>
  C5. Creation is idempotent under a duplicate code: when a first call of
  \<open>Promocode.create\<close> has left the session \<open>s1\<close> and the code is stored in it, a
  second call with that code (whatever its keyword arguments) leaves the stored rows, and
  the whole session, as the first call left them; it returns the stored promocode and
  logs nothing.
\<close>

theorem promocode_create_idempotent:
  assumes "promocode_create s c kw = (r1, s1, l1)"
    and "promocode_exists s1 c"
    and "promocode_create s1 c kw' = (r2, s2, l2)"
  shows "rows s2 = rows s1 \<and> s2 = s1 \<and> r2 = Inr (promocode_get s1 c) \<and> l2 = []"
proof -
  from assms(1) have "pending_new s1 = [] \<and> pending_deleted s1 = []"
    by (rule promocode_create_clean)
  then have "commit s1 = Inr s1" by (simp add: commit_no_pending)
  with assms(3) show ?thesis
    by (auto simp: promocode_create_def promocode_get_def)
qed

theorem promocode_create_idempotent_witness:
  "promocode_create stored_session ''SPRING25'' [(''duration'', 30)]
     = (Inr (Some (''SPRING25'', example_row)), stored_session, [])
   \<and> promocode_exists stored_session ''SPRING25''
   \<and> rows (fst (snd (promocode_create stored_session ''SPRING25'' [(''duration'', 60)])))
       = rows stored_session"
proof -
  have c: "commit stored_session = Inr stored_session"
    by (simp add: commit_no_pending stored_session_def)
  have 1: "promocode_create stored_session ''SPRING25'' [(''duration'', 30)]
             = (Inr (Some (''SPRING25'', example_row)), stored_session, [])"
    by (simp add: promocode_create_def c select_by_code_def) (simp add: stored_session_def)
  have 2: "promocode_exists stored_session ''SPRING25''"
    by (simp add: promocode_exists_def select_by_code_def stored_session_def)
  obtain r2 s2 l2 where 3:
    "promocode_create stored_session ''SPRING25'' [(''duration'', 60)] = (r2, s2, l2)"
    by (cases "promocode_create stored_session ''SPRING25'' [(''duration'', 60)]")
  from promocode_create_idempotent [OF 1 2 3] 1 2 3 show ?thesis by simp
qed

text \<open>
  C10. On a session with nothing pending (the sources open one session per operation),
  \<open>Promocode.delete\<close> returns \<open>True\<close> exactly when a row with the code is stored, and
  then that row and no other is removed; when no row has the code it returns \<open>False\<close>
  and the session is unchanged.
\<close>

theorem promocode_delete_spec:
  assumes "pending_new s = []" and "pending_deleted s = []"
  shows "promocode_delete s c =
           (if c \<in> dom (rows s) then (Inr True, s\<lparr>rows := (rows s)(c := None)\<rparr>)
            else (Inr False, s))"
  using assms
  by (auto simp: promocode_delete_def select_by_code_def session_delete_def commit_def
      violates_unique_def after_deletes_def fun_eq_iff split: option.splits)

theorem promocode_delete_spec_witness:
  "promocode_delete stored_session ''SPRING25''
     = (Inr True, stored_session\<lparr>rows := Map.empty\<rparr>)
   \<and> promocode_delete stored_session ''WINTER'' = (Inr False, stored_session)"
proof -
  have a: "pending_new stored_session = []" and b: "pending_deleted stored_session = []"
    by (simp_all add: stored_session_def)
  from promocode_delete_spec [OF a b, of "''SPRING25''"] promocode_delete_spec [OF a b, of "''WINTER''"]
  show ?thesis by (simp add: stored_session_def)
qed

section \<open>The restart of the bot\<close>

text \<open>
  C9. With \<open>HOSTNAME\<close> set to a non-empty value the handler runs
  \<open>docker restart\<close> on that name; with \<open>HOSTNAME\<close> unset or empty it re-executes
  the interpreter with the interpreter and the arguments of the process; in every case
  it takes exactly one of the two actions.
\<close>

theorem callback_restart_bot_branches:
  "(environ ''HOSTNAME'' = Some n \<and> n \<noteq> [] \<longrightarrow>
      snd (callback_restart_bot environ exe argv admin) = [System (''docker restart '' @ n)])
   \<and> (environ ''HOSTNAME'' = None \<or> environ ''HOSTNAME'' = Some [] \<longrightarrow>
      snd (callback_restart_bot environ exe argv admin) = [Execv exe (exe # argv)])
   \<and> length (snd (callback_restart_bot environ exe argv admin)) = 1"
  by (auto simp: callback_restart_bot_def split: option.splits)

theorem callback_restart_bot_branches_witness:
  "snd (callback_restart_bot [''HOSTNAME'' \<mapsto> ''bot1''] ''/usr/bin/python3'' [''-m'', ''app''] ''42'')
     = [System ''docker restart bot1'']
   \<and> snd (callback_restart_bot Map.empty ''/usr/bin/python3'' [''-m'', ''app''] ''42'')
     = [Execv ''/usr/bin/python3'' [''/usr/bin/python3'', ''-m'', ''app'']]"
  using callback_restart_bot_branches
          [of "[''HOSTNAME'' \<mapsto> ''bot1'']" "''bot1''" "''/usr/bin/python3''" "[''-m'', ''app'']" "''42''"]
        callback_restart_bot_branches
          [of Map.empty "''bot1''" "''/usr/bin/python3''" "[''-m'', ''app'']" "''42''"]
  by simp

section \<open>The YooKassa webhook\<close>

text \<open>
  C1. A request whose address (the header \<open>X-Forwarded-For\<close>, or the remote address
  when the header is absent) the trust check rejects gets the status 403, and the world
  is left as it was: no transaction is touched, nothing is called, nothing is logged.
\<close>

theorem webhook_untrusted_ip_403:
  "is_ip_trusted E (source_ip req) = Inr False \<Longrightarrow>
     webhook_handler E req w = (Inr (Response 403), w)"
  by (simp add: webhook_handler_def return_def bind_def)

theorem webhook_untrusted_ip_403_witness:
  "is_ip_trusted example_env (source_ip (example_request ''10.0.0.1'' ''succeeded p-1'')) = Inr False
   \<and> webhook_handler example_env (example_request ''10.0.0.1'' ''succeeded p-1'') pending_world
       = (Inr (Response 403), pending_world)"
proof -
  have h: "is_ip_trusted example_env (source_ip (example_request ''10.0.0.1'' ''succeeded p-1'')) = Inr False"
    by (simp add: example_env_def source_ip_def example_request_def)
  from webhook_untrusted_ip_403 [OF h] h show ?thesis by simp
qed

text \<open>A trusted request whose body parses: the \<open>try\<close> block decides, and an exception
  inside it is logged and answered by 400.\<close>

lemma webhook_handler_trusted:
  assumes "is_ip_trusted E (source_ip req) = Inr True"
    and "json_loads E (body req) = Inr j"
  shows "webhook_handler E req w =
     (case webhook_try E j w of
        (Inl exception, w') \<Rightarrow>
          (Inr (Response 400),
           w'\<lparr>logs := logs w' @ [(ERROR, ''Error processing YooKassa webhook: '' @ str_exn exception)]\<rparr>)
      | (Inr r, w') \<Rightarrow> (Inr r, w'))"
  using assms
  by (simp add: webhook_handler_def return_def log_def bind_def split: prod.splits sum.splits)

lemma webhook_factory_exception_400:
  assumes "is_ip_trusted E (source_ip req) = Inr True"
    and "json_loads E (body req) = Inr j"
    and "factory_create E j = Inl e"
  shows "fst (webhook_handler E req w) = Inr (Response 400)"
  using assms(3)
  by (simp add: webhook_handler_trusted [OF assms(1,2)] webhook_try_def bind_def)

text \<open>
  C2, as amended. For a trusted request whose body parses into a notification: on the
  event \<open>PAYMENT_SUCCEEDED\<close> (and likewise \<open>PAYMENT_CANCELED\<close>) the handler of the
  event is invoked, and the status is 200 when that handler returns and 400 (with the
  exception logged) when it raises; on every other event the status is 400 and the world
  is unchanged.
\<close>

theorem webhook_status_by_event:
  assumes "is_ip_trusted E (source_ip req) = Inr True"
    and "json_loads E (body req) = Inr j"
    and "factory_create E j = Inr n"
  shows "webhook_handler E req w =
     (if event n = PAYMENT_SUCCEEDED then
        (case handle_payment_succeeded E (object_id n) w of
           (Inr u, w') \<Rightarrow> (Inr (Response 200), w')
         | (Inl e, w') \<Rightarrow>
             (Inr (Response 400),
              w'\<lparr>logs := logs w' @ [(ERROR, ''Error processing YooKassa webhook: '' @ str_exn e)]\<rparr>))
      else if event n = PAYMENT_CANCELED then
        (case handle_payment_canceled E (object_id n) w of
           (Inr u, w') \<Rightarrow> (Inr (Response 200), w')
         | (Inl e, w') \<Rightarrow>
             (Inr (Response 400),
              w'\<lparr>logs := logs w' @ [(ERROR, ''Error processing YooKassa webhook: '' @ str_exn e)]\<rparr>))
      else (Inr (Response 400), w))"
  using assms(3)
  by (simp add: webhook_handler_trusted [OF assms(1,2)] webhook_try_def bind_def return_def
      split: prod.splits sum.splits)

text \<open>Without the condition on the handler the statement fails: a trusted, well-formed notification of
  \<open>PAYMENT_CANCELED\<close> for a payment that has no transaction gets 400, not 200, since
  the handler of the event raises.\<close>

theorem webhook_canceled_unknown_payment_400:
  "is_ip_trusted example_env (source_ip (example_request ''185.71.76.10'' ''canceled p-404'')) = Inr True
   \<and> json_loads example_env (body (example_request ''185.71.76.10'' ''canceled p-404''))
       = Inr (JObj [(''event'', JStr ''payment.canceled''), (''id'', JStr ''p-404'')])
   \<and> factory_create example_env (JObj [(''event'', JStr ''payment.canceled''), (''id'', JStr ''p-404'')])
       = Inr \<lparr>event = PAYMENT_CANCELED, object_id = ''p-404''\<rparr>
   \<and> fst (webhook_handler example_env (example_request ''185.71.76.10'' ''canceled p-404'') empty_world)
       = Inr (Response 400)"
  by (simp add: example_defs webhook_handler_def webhook_try_def handle_payment_canceled_def
      transaction_get_by_id_def run_defs PAYMENT_SUCCEEDED_def PAYMENT_CANCELED_def)

text \<open>
  C3. A trusted request whose body is not JSON: the parse happens before the \<open>try\<close>
  block, so its exception leaves \<open>webhook_handler\<close> instead of becoming the status
  400.
\<close>

theorem webhook_invalid_json_propagates:
  "is_ip_trusted example_env (source_ip (example_request ''185.71.76.10'' ''not json'')) = Inr True
   \<and> webhook_handler example_env (example_request ''185.71.76.10'' ''not json'') empty_world
       = (Inl JSONDecodeError, empty_world)"
  by (simp add: example_defs webhook_handler_def run_defs)

section \<open>The status of a transaction\<close>

lemma keeps_bind:
  assumes "keeps_txs m" and "\<And>a. keeps_txs (f a)"
  shows "keeps_txs (bind m f)"
  unfolding keeps_txs_def
proof
  fix w
  obtain r w' where m: "m w = (r, w')" by (cases "m w")
  with assms(1) have w': "txs w' = txs w" by (auto simp: keeps_txs_def dest: spec [of _ w])
  show "txs (snd (bind m f w)) = txs w"
  proof (cases r)
    case (Inl e)
    with m w' show ?thesis by (simp add: bind_def)
  next
    case (Inr a)
    from assms(2) [of a] have "txs (snd (f a w')) = txs w'" by (simp add: keeps_txs_def)
    with Inr m w' show ?thesis by (simp add: bind_def)
  qed
qed

lemma keeps_perform: "keeps_txs (perform E c)"
  by (simp add: keeps_txs_def perform_def split: option.splits)

lemma keeps_log: "keeps_txs (log l s)"
  by (simp add: keeps_txs_def log_def)

lemma keeps_return: "keeps_txs (return a)"
  by (simp add: keeps_txs_def return_def)

lemma keeps_if: "keeps_txs a \<Longrightarrow> keeps_txs b \<Longrightarrow> keeps_txs (if c then a else b)"
  by simp

lemma keeps_provision: "keeps_txs (provision E u d)"
  unfolding provision_def Let_def
  by (intro keeps_bind keeps_if keeps_perform keeps_log)

lemma txs_provision: "txs (snd (provision E u d w)) = txs w"
  using keeps_provision [of E u d] by (simp add: keeps_txs_def)

lemma statuses_enumerated_upd:
  "statuses_enumerated t \<Longrightarrow> enumerated (status tr) \<Longrightarrow> statuses_enumerated (t(pid \<mapsto> tr))"
  unfolding statuses_enumerated_def ran_def by auto

lemma statuses_create:
  "statuses_enumerated t \<Longrightarrow> enumerated st \<Longrightarrow> statuses_enumerated (transaction_create t u s p st)"
  by (cases "t p") (simp_all add: transaction_create_def statuses_enumerated_upd)

lemma statuses_update:
  "statuses_enumerated t \<Longrightarrow> enumerated st \<Longrightarrow> statuses_enumerated (transaction_update t p st)"
  by (cases "t p") (simp_all add: transaction_update_def statuses_enumerated_upd)

lemma create_payment_statuses:
  assumes "statuses_enumerated (txs w)"
  shows "statuses_enumerated (txs (snd (create_payment E data w)))"
proof (cases "bot_username E")
  case (Inl e)
  with assms show ?thesis by (simp add: create_payment_def bind_def)
next
  case (Inr u)
  show ?thesis
  proof (cases "payment_create E (payment_request_for E u data)")
    case (Inl e)
    with Inr assms show ?thesis by (simp add: create_payment_def bind_def)
  next
    case r: (Inr resp)
    with Inr assms show ?thesis
      by (simp add: create_payment_def run_defs statuses_create enumerated_def)
  qed
qed

lemma handle_payment_succeeded_statuses:
  assumes "statuses_enumerated (txs w)"
  shows "statuses_enumerated (txs (snd (handle_payment_succeeded E pid w)))"
proof (cases "txs w pid")
  case None
  with assms show ?thesis
    by (simp add: handle_payment_succeeded_def bind_def log_def transaction_get_by_id_def)
next
  case (Some tr)
  show ?thesis
  proof (cases "unpack E (subscription tr)")
    case (Inl e)
    with Some assms show ?thesis
      by (simp add: handle_payment_succeeded_def bind_def log_def transaction_get_by_id_def)
  next
    case (Inr d)
    with Some assms show ?thesis
      by (simp add: handle_payment_succeeded_def bind_def log_def Let_def
          transaction_get_by_id_def txs_provision statuses_update enumerated_def)
  qed
qed

lemma handle_payment_canceled_statuses:
  assumes "statuses_enumerated (txs w)"
  shows "statuses_enumerated (txs (snd (handle_payment_canceled E pid w)))"
proof (cases "txs w pid")
  case None
  with assms show ?thesis
    by (simp add: handle_payment_canceled_def bind_def log_def transaction_get_by_id_def)
next
  case (Some tr)
  with assms show ?thesis
    by (cases "unpack E (subscription tr)")
       (simp_all add: handle_payment_canceled_def bind_def log_def transaction_get_by_id_def
          statuses_update enumerated_def)
qed

lemma created_pending:
  assumes "bot_username E = Inr u"
    and "payment_create E (payment_request_for E u data) = Inr resp"
    and "txs w (resp_id resp) = None"
  shows "txs (snd (create_payment E data w)) (resp_id resp) =
           Some \<lparr>tg_id = user_id data, subscription = pack E data,
                 payment_id = resp_id resp, status = PENDING\<rparr>"
  using assms by (simp add: create_payment_def run_defs transaction_create_def)

lemma succeeded_completed:
  assumes "txs w pid = Some tr" and "unpack E (subscription tr) = Inr d"
  shows "txs (snd (handle_payment_succeeded E pid w)) pid = Some (tr\<lparr>status := COMPLETED\<rparr>)"
  using assms
  by (simp add: handle_payment_succeeded_def bind_def log_def Let_def
      transaction_get_by_id_def transaction_update_def txs_provision)

lemma canceled_canceled:
  assumes "txs w pid = Some tr" and "unpack E (subscription tr) = Inr d"
  shows "txs (snd (handle_payment_canceled E pid w)) pid = Some (tr\<lparr>status := CANCELED\<rparr>)"
  using assms
  by (simp add: handle_payment_canceled_def bind_def log_def transaction_get_by_id_def
      transaction_update_def)

text \<open>
  C6. A payment that the gateway accepts under a fresh identifier is stored under that
  identifier with the status \<open>PENDING\<close>; for a stored payment whose subscription
  unpacks, the handler of the succeeded event sets the status of that row to
  \<open>COMPLETED\<close> and the handler of the canceled event sets it to \<open>CANCELED\<close>; and a
  table whose statuses are all among the three members stays so under
  \<open>create_payment\<close> and under both handlers, whatever else fails.
\<close>

theorem yookassa_transaction_status:
  "(bot_username E = Inr u \<and> payment_create E (payment_request_for E u data) = Inr resp
      \<and> txs w (resp_id resp) = None \<longrightarrow>
      txs (snd (create_payment E data w)) (resp_id resp) =
        Some \<lparr>tg_id = user_id data, subscription = pack E data,
              payment_id = resp_id resp, status = PENDING\<rparr>)
   \<and> (txs w pid = Some tr \<and> unpack E (subscription tr) = Inr d \<longrightarrow>
      txs (snd (handle_payment_succeeded E pid w)) pid = Some (tr\<lparr>status := COMPLETED\<rparr>)
      \<and> txs (snd (handle_payment_canceled E pid w)) pid = Some (tr\<lparr>status := CANCELED\<rparr>))
   \<and> (statuses_enumerated (txs w) \<longrightarrow>
      statuses_enumerated (txs (snd (create_payment E data w)))
      \<and> statuses_enumerated (txs (snd (handle_payment_succeeded E pid w)))
      \<and> statuses_enumerated (txs (snd (handle_payment_canceled E pid w))))"
proof (intro conjI impI)
  assume "bot_username E = Inr u \<and> payment_create E (payment_request_for E u data) = Inr resp
      \<and> txs w (resp_id resp) = None"
  then show "txs (snd (create_payment E data w)) (resp_id resp) =
        Some \<lparr>tg_id = user_id data, subscription = pack E data,
              payment_id = resp_id resp, status = PENDING\<rparr>"
    by (simp add: created_pending)
next
  assume "txs w pid = Some tr \<and> unpack E (subscription tr) = Inr d"
  then show "txs (snd (handle_payment_succeeded E pid w)) pid = Some (tr\<lparr>status := COMPLETED\<rparr>)"
    by (simp add: succeeded_completed)
next
  assume "txs w pid = Some tr \<and> unpack E (subscription tr) = Inr d"
  then show "txs (snd (handle_payment_canceled E pid w)) pid = Some (tr\<lparr>status := CANCELED\<rparr>)"
    by (simp add: canceled_canceled)
next
  assume "statuses_enumerated (txs w)"
  then show "statuses_enumerated (txs (snd (create_payment E data w)))"
    by (rule create_payment_statuses)
next
  assume "statuses_enumerated (txs w)"
  then show "statuses_enumerated (txs (snd (handle_payment_succeeded E pid w)))"
    by (rule handle_payment_succeeded_statuses)
next
  assume "statuses_enumerated (txs w)"
  then show "statuses_enumerated (txs (snd (handle_payment_canceled E pid w)))"
    by (rule handle_payment_canceled_statuses)
qed

theorem yookassa_transaction_status_witness:
  "txs (snd (create_payment example_env example_data empty_world)) ''p-1'' = Some example_transaction
   \<and> txs (snd (handle_payment_succeeded example_env ''p-1'' pending_world)) ''p-1''
        = Some (example_transaction\<lparr>status := COMPLETED\<rparr>)
   \<and> txs (snd (handle_payment_canceled example_env ''p-1'' pending_world)) ''p-1''
        = Some (example_transaction\<lparr>status := CANCELED\<rparr>)
   \<and> statuses_enumerated (txs pending_world)
   \<and> statuses_enumerated (txs (snd (handle_payment_succeeded example_env ''p-1'' pending_world)))"
proof -
  have a: "bot_username example_env = Inr ''shop_bot''"
    by (simp add: example_env_def)
  have b: "payment_create example_env (payment_request_for example_env ''shop_bot'' example_data)
             = Inr \<lparr>resp_id = ''p-1'', confirmation_url = ''https://pay/p-1''\<rparr>"
    by (simp add: example_env_def)
  have c: "txs empty_world (resp_id \<lparr>resp_id = ''p-1'', confirmation_url = ''https://pay/p-1''\<rparr>) = None"
    by (simp add: empty_world_def)
  have d: "txs pending_world ''p-1'' = Some example_transaction"
    by (simp add: pending_world_def)
  have e: "unpack example_env (subscription example_transaction) = Inr example_data"
    by (simp add: example_env_def example_transaction_def)
  have f: "statuses_enumerated (txs pending_world)"
    by (simp add: statuses_enumerated_def pending_world_def example_transaction_def enumerated_def)
  have g: "\<lparr>tg_id = user_id example_data, subscription = pack example_env example_data,
             payment_id = ''p-1'', status = PENDING\<rparr> = example_transaction"
    by (simp add: example_data_def example_env_def example_transaction_def)
  from yookassa_transaction_status
         [of example_env "''shop_bot''" example_data
             "\<lparr>resp_id = ''p-1'', confirmation_url = ''https://pay/p-1''\<rparr>" empty_world]
       yookassa_transaction_status
         [of example_env _ example_data _ pending_world "''p-1''" example_transaction example_data]
       a b c d e f g
  show ?thesis by simp
qed

text \<open>Both outcomes on concrete requests: a trusted notification of the succeeded event for a stored
  payment gets 200 and completes the transaction; a trusted notification of a refund gets
  400 and changes nothing.\<close>

theorem webhook_status_by_event_witness:
  "is_ip_trusted example_env (source_ip (example_request ''185.71.76.10'' ''succeeded p-1'')) = Inr True
   \<and> fst (webhook_handler example_env (example_request ''185.71.76.10'' ''succeeded p-1'') pending_world)
       = Inr (Response 200)
   \<and> txs (snd (webhook_handler example_env (example_request ''185.71.76.10'' ''succeeded p-1'') pending_world)) ''p-1''
       = Some (example_transaction\<lparr>status := COMPLETED\<rparr>)
   \<and> webhook_handler example_env (example_request ''185.71.76.10'' ''refund p-1'') pending_world
       = (Inr (Response 400), pending_world)"
proof -
  have 1: "is_ip_trusted example_env (source_ip (example_request ''185.71.76.10'' b)) = Inr True" for b
    by (simp add: example_defs)
  have 2: "json_loads example_env (body (example_request ''185.71.76.10'' ''succeeded p-1''))
             = Inr (JObj [(''event'', JStr ''payment.succeeded''), (''id'', JStr ''p-1'')])"
    by (simp add: example_defs)
  have 3: "factory_create example_env (JObj [(''event'', JStr ''payment.succeeded''), (''id'', JStr ''p-1'')])
             = Inr \<lparr>event = ''payment.succeeded'', object_id = ''p-1''\<rparr>"
    by (simp add: example_defs)
  have 4: "json_loads example_env (body (example_request ''185.71.76.10'' ''refund p-1''))
             = Inr (JObj [(''event'', JStr ''refund.succeeded''), (''id'', JStr ''p-1'')])"
    by (simp add: example_defs)
  have 5: "factory_create example_env (JObj [(''event'', JStr ''refund.succeeded''), (''id'', JStr ''p-1'')])
             = Inr \<lparr>event = ''refund.succeeded'', object_id = ''p-1''\<rparr>"
    by (simp add: example_defs)
  have 6: "fst (handle_payment_succeeded example_env ''p-1'' pending_world) = Inr ()"
    by (simp add: handle_payment_succeeded_def provision_def transaction_get_by_id_def
        pending_world_def example_transaction_def example_defs run_defs)
  have 7: "txs (snd (handle_payment_succeeded example_env ''p-1'' pending_world)) ''p-1''
             = Some (example_transaction\<lparr>status := COMPLETED\<rparr>)"
    by (rule succeeded_completed [where d = example_data])
       (simp_all add: pending_world_def example_transaction_def example_env_def)
  from webhook_status_by_event [OF 1 2 3, of pending_world]
       webhook_status_by_event [OF 1 4 5, of pending_world] 1 6 7
  show ?thesis
    by (simp add: PAYMENT_SUCCEEDED_def PAYMENT_CANCELED_def split: prod.splits sum.splits)
qed

section \<open>The deletion of a tracked message\<close>

text \<open>In \<open>command_main_menu\<close> a failed deletion of the previous menu is logged as a
  warning and swallowed; the state is cleared and the rest of the handler runs.\<close>

lemma command_main_menu_swallows_delete_failure:
  assumes "fsm_data w ''message_id'' = Some i" and "i \<noteq> 0"
    and "fails E (DeleteMessage (chat_id m) i) = Some e"
    and "fails E StateClear = None"
  shows "command_main_menu E m w =
           main_menu_rest E m
             (w\<lparr>logs := logs w @
                   [(INFO, ''User '' @ str_int E (user_tg_id (from_user m)) @ '' opened main menu page.''),
                    (WARNING, ''Couldn't delete message with ID '' @ str_int E i @ '': '' @ str_exn e)],
                 calls := calls w @ [StateClear],
                 fsm_data := Map.empty\<rparr>)"
  using assms
  by (simp add: command_main_menu_def delete_previous_menu_def state_clear_def run_defs)

text \<open>
  C8. In \<open>successful_payment\<close> a failed deletion of the invoice message is not
  swallowed: the handler of the exception reads the attribute \<open>message_idd\<close>, which the
  subscription data does not have, so \<open>AttributeError\<close> leaves the handler; no warning
  is logged, no subscription is created, no transaction is stored and no answer is sent.
\<close>

theorem successful_payment_delete_failure_raises:
  "fails failing_delete_env (DeleteMessage (chat_id payment_message) (message_id example_data))
     = Some TelegramBadRequest
   \<and> successful_payment failing_delete_env payment_message empty_world =
       (Inl (AttributeError ''message_idd''),
        empty_world\<lparr>logs := [(INFO, ''Payment successful for user n''),
                               (DEBUG, ''Subscription data unpacked: packed'')]\<rparr>)"
  by (simp add: successful_payment_def delete_invoice_message_def getattr_data_def
      failing_delete_env_def payment_message_def example_user_def example_defs run_defs)

section \<open>The rotation of the log file\<close>

lemma setup_logging_example: "setup_logging example_config ''2024-05-01'' = Inr example_handler"
  by (simp add: setup_logging_def example_config_def example_handler_def init_handler_def
      path_join_def)

text \<open>
  C7. A rollover of the handler that \<open>setup_logging\<close> installs: the rotated-out file
  (the base name with the date) is left as it is, uncompressed; what is archived is the
  base file just opened again, holding only the line logged by the archiving itself; and
  the file removed is that base file.
\<close>

theorem doRollover_archives_fresh_file:
  "doRollover example_handler ''2024-05-01'' example_fs =
     (Inr (),
      [(''logs/2024-05-01.log.2024-05-01'', Plain ''started''),
       (''logs/2024-05-01.log.zip'',
        Zip [(''2024-05-01.log'',
              Plain ''Archiving logs/2024-05-01.log to logs/2024-05-01.log.zip'')])])"
  by code_simp

end
